theory Spec2Isabelle
  imports Complex_Main
begin

section \<open>Strings\<close>

text \<open>
  A string is a list of characters, and a character is a code point up to U+00FF (the
  Latin-1 range), which is all that an 8-bit \<open>char\<close> can hold. On these code points
  JavaScript's \<open>toLowerCase\<close> maps the capitals \<open>A\<close> to \<open>Z\<close> (65 to 90) and the accented
  capitals U+00C0 to U+00DE, except the multiplication sign U+00D7, to the letter 32
  places further (bit 5 set), and leaves every other code point as it is. The same
  folding stands for the case-insensitive comparison mode of the primary store.
\<close>

definition toLowerCase_char :: "char \<Rightarrow> char" where
  "toLowerCase_char c =
     (let n = (of_char c :: nat) in
      if (65 \<le> n \<and> n \<le> 90) \<or> (192 \<le> n \<and> n \<le> 222 \<and> n \<noteq> 215)
      then Char (digit0 c) (digit1 c) (digit2 c) (digit3 c) (digit4 c) True (digit6 c) (digit7 c)
      else c)"

definition toLowerCase :: "string \<Rightarrow> string" where
  "toLowerCase s = map toLowerCase_char s"

text \<open>
  \<open>toUpperCase\<close> maps \<open>a\<close> to \<open>z\<close> (97 to 122) and the accented letters U+00E0 to U+00FE,
  except the division sign U+00F7, to the capital 32 places before (bit 5 cleared), and
  the sharp s U+00DF to the two letters \<open>SS\<close>. The capitals of the micro sign U+00B5 and of
  U+00FF lie beyond U+00FF and have no character here: these two are left as they are.
\<close>

definition toUpperCase_char :: "char \<Rightarrow> string" where
  "toUpperCase_char c =
     (let n = (of_char c :: nat) in
      if n = 223 then ''SS''
      else if (97 \<le> n \<and> n \<le> 122) \<or> (224 \<le> n \<and> n \<le> 254 \<and> n \<noteq> 247)
      then [Char (digit0 c) (digit1 c) (digit2 c) (digit3 c) (digit4 c) False (digit6 c) (digit7 c)]
      else [c])"

definition toUpperCase :: "string \<Rightarrow> string" where
  "toUpperCase s = concat (map toUpperCase_char s)"

fun startsWith :: "string \<Rightarrow> string \<Rightarrow> bool" where
  "startsWith s [] = True"
| "startsWith [] (p # ps) = False"
| "startsWith (c # cs) (p # ps) = (c = p \<and> startsWith cs ps)"

text \<open>\<open>contains s p\<close>: \<open>p\<close> occurs in \<open>s\<close> as a contiguous substring.\<close>

fun contains :: "string \<Rightarrow> string \<Rightarrow> bool" where
  "contains [] p = (p = [])"
| "contains (c # cs) p = (startsWith (c # cs) p \<or> contains cs p)"

text \<open>The store's \<open>{ contains: q, mode: 'insensitive' }\<close> and \<open>{ in: xs, mode: 'insensitive' }\<close>.\<close>

definition contains_insensitive :: "string \<Rightarrow> string \<Rightarrow> bool" where
  "contains_insensitive s q = contains (toLowerCase s) (toLowerCase q)"

definition in_insensitive :: "string \<Rightarrow> string list \<Rightarrow> bool" where
  "in_insensitive s xs = (toLowerCase s \<in> set (map toLowerCase xs))"

text \<open>\<open>xs.join(' ')\<close>.\<close>

fun join_space :: "string list \<Rightarrow> string" where
  "join_space [] = []"
| "join_space [x] = x"
| "join_space (x # y # ys) = x @ '' '' @ join_space (y # ys)"

section \<open>Errors\<close>

text \<open>
  Every exception the services can raise or receive: the two errors of the index client
  (no connection; an HTTP error status answered by the index), an error of the primary
  store's client, and the HTTP exceptions the services raise themselves.
\<close>

datatype error =
    ConnectionError string
  | ResponseError nat string
  | PrismaError string
  | HttpException string nat
  | NotFoundException string
  | ForbiddenException string

section \<open>Data model\<close>

text \<open>
  The scalar columns of a recipe that every representation shares; they are exactly the
  fields listed in the \<open>_source\<close> of a search request, so a search hit is a \<open>recipe_core\<close>.
  Nullable columns are options. Timestamps are milliseconds since the epoch.
\<close>

record recipe_core =
  recipeId :: string
  title :: string
  description :: "string option"
  prepTime :: "int option"
  cookTime :: "int option"
  servings :: "int option"
  difficulty :: string
  cuisine :: "string option"
  tags :: "string list"
  authorId :: string
  isPublic :: bool

record recipe_base = recipe_core +
  createdAt :: int
  updatedAt :: int

record ingredient =
  ingredientName :: string
  ingredientOrder :: int

record instruction =
  step :: string
  stepOrder :: int

record rating_row =
  ratingUserId :: string
  rating :: int

record comment_row =
  commentUserId :: string
  content :: string

text \<open>A recipe of the primary store with its relations.\<close>

record recipe_row = recipe_base +
  ingredients :: "ingredient list"
  instructions :: "instruction list"
  ratings :: "rating_row list"
  comments :: "comment_row list"

text \<open>The Indexed Document: the projection \<open>indexRecipe\<close> writes to the index.\<close>

record indexed_document = recipe_base +
  ingredientText :: string
  instructionText :: string

text \<open>
  What \<open>findMany\<close> returns for a recipe under \<open>include: { ..., _count: { select:
  { ratings: true, comments: true } } }\<close>: the row and the two relation counts.
\<close>

record recipe_included =
  row :: recipe_row
  count_ratings :: nat
  count_comments :: nat

text \<open>The result of \<open>formatRecipe\<close>: the included recipe and the three computed fields.\<close>

record formatted_recipe =
  included :: recipe_included
  averageRating :: "real option"
  ratingsCount :: nat
  commentsCount :: nat

text \<open>
  An element of the \<open>recipes\<close> array of a search result: the \<open>_source\<close> of an index hit on
  the index path, a formatted recipe on the fallback path.
\<close>

datatype search_item = IndexHit recipe_core | StoreRow formatted_recipe

fun item_isPublic :: "search_item \<Rightarrow> bool" where
  "item_isPublic (IndexHit h) = isPublic h"
| "item_isPublic (StoreRow f) = isPublic (row (included f))"

fun item_id :: "search_item \<Rightarrow> string" where
  "item_id (IndexHit h) = recipeId h"
| "item_id (StoreRow f) = recipeId (row (included f))"

record search_result =
  recipes :: "search_item list"
  total :: nat

record search_filters =
  f_difficulty :: "string option"
  f_cuisine :: "string option"
  f_tags :: "string list option"
  f_ingredients :: "string list option"
  f_minRating :: "int option"
  f_maxPrepTime :: "int option"
  f_maxCookTime :: "int option"

text \<open>JavaScript truthiness of an optional string, an optional number, and of
  \<open>xs && xs.length > 0\<close>.\<close>

fun truthy_string :: "string option \<Rightarrow> bool" where
  "truthy_string None = False"
| "truthy_string (Some s) = (s \<noteq> [])"

fun truthy_number :: "int option \<Rightarrow> bool" where
  "truthy_number None = False"
| "truthy_number (Some n) = (n \<noteq> 0)"

fun nonempty_list :: "'a list option \<Rightarrow> bool" where
  "nonempty_list None = False"
| "nonempty_list (Some xs) = (xs \<noteq> [])"

section \<open>Primary Store\<close>

text \<open>
  The primary store holds the recipe table. When \<open>store_fault\<close> is set the store is
  unreachable and every call of its client raises.
\<close>

record primary_store =
  recipeTable :: "recipe_row list"
  store_fault :: "string option"

text \<open>\<open>orderBy: { createdAt: 'desc' }\<close>, rows of equal \<open>createdAt\<close> in table order.\<close>

definition orderBy_createdAt_desc :: "recipe_row list \<Rightarrow> recipe_row list" where
  "orderBy_createdAt_desc rs = sort_key (\<lambda>r. - createdAt r) rs"

text \<open>The relation includes of the search queries: ingredients and instructions ordered
  by \<open>order\<close> ascending, and the relation counts.\<close>

definition include_relations :: "recipe_row \<Rightarrow> recipe_included" where
  "include_relations r =
     \<lparr> row = r\<lparr> ingredients := sort_key ingredientOrder (ingredients r),
                 instructions := sort_key stepOrder (instructions r) \<rparr>,
       count_ratings = length (ratings r),
       count_comments = length (comments r) \<rparr>"

text \<open>\<open>prisma.recipe.findMany({ where, include, orderBy: { createdAt: 'desc' }, skip, take })\<close>.\<close>

definition findMany :: "primary_store \<Rightarrow> (recipe_row \<Rightarrow> bool) \<Rightarrow> nat \<Rightarrow> nat
    \<Rightarrow> error + recipe_included list" where
  "findMany db wh skip tk =
     (case store_fault db of
        Some m \<Rightarrow> Inl (PrismaError m)
      | None \<Rightarrow>
          Inr (map include_relations
                 (take tk (drop skip (orderBy_createdAt_desc (filter wh (recipeTable db)))))))"

text \<open>\<open>prisma.recipe.count({ where })\<close>.\<close>

definition count_where :: "primary_store \<Rightarrow> (recipe_row \<Rightarrow> bool) \<Rightarrow> error + nat" where
  "count_where db wh =
     (case store_fault db of
        Some m \<Rightarrow> Inl (PrismaError m)
      | None \<Rightarrow> Inr (length (filter wh (recipeTable db))))"

section \<open>Index backend\<close>

text \<open>
  The index backend is the search engine behind the client. The model keeps its documents
  (one per \<open>_id\<close>, which is the recipe id) and interprets the part of the query language
  that the service emits: \<open>term\<close>, \<open>terms\<close> and \<open>range\<close> on the mapped fields, and \<open>bool\<close>
  with \<open>must\<close>, \<open>should\<close> and \<open>minimum_should_match\<close>. The analysed full-text match of
  \<open>multi_match\<close> (tokenizer, stop words, stemming, fuzziness) and the relevance score are
  parameters of the backend. When \<open>es_fault\<close> is set, every call of the client raises
  that error.
\<close>

datatype es_value = VString string | VBool bool

datatype es_query =
    Term string es_value
  | Terms string "string list"
  | RangeLte string int
  | MultiMatch string "(string \<times> real) list" string
  | Bool "es_query list" "es_query list" nat

record es_backend =
  es_fault :: "error option"
  es_docs :: "indexed_document list"
  text_match :: "string \<Rightarrow> (string \<times> real) list \<Rightarrow> string \<Rightarrow> indexed_document \<Rightarrow> bool"
  relevance :: "es_query \<Rightarrow> indexed_document \<Rightarrow> real"

record es_request =
  req_query :: es_query
  req_from :: nat
  req_size :: nat
  req_terminate_after :: nat

record es_response =
  hits_total :: nat
  hits :: "recipe_core list"

text \<open>The exact (keyword, boolean) values and the integer value of a mapped field.\<close>

definition keyword_values :: "string \<Rightarrow> indexed_document \<Rightarrow> es_value list" where
  "keyword_values f d =
     (if f = ''id'' then [VString (recipeId d)]
      else if f = ''title.keyword'' then [VString (title d)]
      else if f = ''description.keyword'' then
        (case description d of None \<Rightarrow> [] | Some s \<Rightarrow> [VString s])
      else if f = ''ingredients.keyword'' then [VString (ingredientText d)]
      else if f = ''tags'' then map VString (tags d)
      else if f = ''difficulty'' then [VString (difficulty d)]
      else if f = ''cuisine'' then
        (case cuisine d of None \<Rightarrow> [] | Some s \<Rightarrow> [VString s])
      else if f = ''authorId'' then [VString (authorId d)]
      else if f = ''isPublic'' then [VBool (isPublic d)]
      else [])"

definition integer_value :: "string \<Rightarrow> indexed_document \<Rightarrow> int option" where
  "integer_value f d =
     (if f = ''prepTime'' then prepTime d
      else if f = ''cookTime'' then cookTime d
      else if f = ''servings'' then servings d
      else None)"

fun matches :: "es_backend \<Rightarrow> es_query \<Rightarrow> indexed_document \<Rightarrow> bool" where
  "matches es (Term f v) d = (v \<in> set (keyword_values f d))"
| "matches es (Terms f vs) d = (\<exists>v \<in> set vs. VString v \<in> set (keyword_values f d))"
| "matches es (RangeLte f n) d =
     (case integer_value f d of None \<Rightarrow> False | Some x \<Rightarrow> x \<le> n)"
| "matches es (MultiMatch q flds fuzziness) d = text_match es q flds fuzziness d"
| "matches es (Bool must should msm) d =
     ((\<forall>q \<in> set must. matches es q d) \<and>
      msm \<le> length (filter (\<lambda>q. matches es q d) should))"

text \<open>The \<open>_source\<close> filter of the search requests.\<close>

definition source_of :: "indexed_document \<Rightarrow> recipe_core" where
  "source_of d =
     \<lparr> recipeId = recipeId d, title = title d, description = description d,
       prepTime = prepTime d, cookTime = cookTime d, servings = servings d,
       difficulty = difficulty d, cuisine = cuisine d, tags = tags d,
       authorId = authorId d, isPublic = isPublic d \<rparr>"

text \<open>The index setting \<open>max_result_window: 10000\<close>.\<close>

definition max_result_window :: nat where
  "max_result_window = 10000"

text \<open>
  \<open>elasticsearch.search\<close>: raises when the backend is faulty or the requested window
  exceeds \<open>max_result_window\<close>; otherwise collects at most \<open>terminate_after\<close> matching
  documents, counts them (\<open>track_total_hits\<close>), sorts them by score descending and
  returns the sources of the page \<open>[from, from + size)\<close>.
\<close>

definition es_search :: "es_backend \<Rightarrow> es_request \<Rightarrow> error + es_response" where
  "es_search es req =
     (case es_fault es of
        Some e \<Rightarrow> Inl e
      | None \<Rightarrow>
          if req_from req + req_size req > max_result_window
          then Inl (ResponseError 400 ''Result window is too large'')
          else
            let collected = take (req_terminate_after req)
                              (filter (matches es (req_query req)) (es_docs es));
                ranked = sort_key (\<lambda>d. - relevance es (req_query req) d) collected
            in Inr \<lparr> hits_total = length collected,
                     hits = map source_of (take (req_size req) (drop (req_from req) ranked)) \<rparr>)"

text \<open>\<open>elasticsearch.index({ id, document })\<close>: writes the document under its id,
  replacing a document already stored there.\<close>

definition es_index :: "es_backend \<Rightarrow> indexed_document \<Rightarrow> error + es_backend" where
  "es_index es doc =
     (case es_fault es of
        Some e \<Rightarrow> Inl e
      | None \<Rightarrow>
          Inr (es\<lparr> es_docs :=
                 (if recipeId doc \<in> set (map recipeId (es_docs es))
                  then map (\<lambda>d. if recipeId d = recipeId doc then doc else d) (es_docs es)
                  else es_docs es @ [doc]) \<rparr>))"

text \<open>\<open>elasticsearch.delete({ id })\<close>: the index answers 404 for an id without a
  document, and the client raises every error status as a \<open>ResponseError\<close>.\<close>

definition es_delete :: "es_backend \<Rightarrow> string \<Rightarrow> error + es_backend" where
  "es_delete es i =
     (case es_fault es of
        Some e \<Rightarrow> Inl e
      | None \<Rightarrow>
          if i \<in> set (map recipeId (es_docs es))
          then Inr (es\<lparr> es_docs := filter (\<lambda>d. recipeId d \<noteq> i) (es_docs es) \<rparr>)
          else Inl (ResponseError 404 ''not_found''))"

section \<open>Search service\<close>

text \<open>
  \<open>indexRecipe\<close>: derives the document from the recipe (ingredient names and step texts
  joined by a space) and writes it under the recipe's id. An error of the client is
  logged and raised again.
\<close>

definition document_of :: "recipe_row \<Rightarrow> indexed_document" where
  "document_of r =
     \<lparr> recipeId = recipeId r, title = title r, description = description r,
       prepTime = prepTime r, cookTime = cookTime r, servings = servings r,
       difficulty = difficulty r, cuisine = cuisine r, tags = tags r,
       authorId = authorId r, isPublic = isPublic r,
       createdAt = createdAt r, updatedAt = updatedAt r,
       ingredientText = join_space (map ingredientName (ingredients r)),
       instructionText = join_space (map step (instructions r)) \<rparr>"

definition indexRecipe :: "es_backend \<Rightarrow> recipe_row \<Rightarrow> error + es_backend" where
  "indexRecipe es r =
     (case es_index es (document_of r) of
        Inl e \<Rightarrow> Inl e
      | Inr es' \<Rightarrow> Inr es')"

text \<open>\<open>deleteRecipe\<close>: deletes the document of the id; an error of the client is logged
  and raised again (\<open>catch (error) { console.error(...); throw error; }\<close>).\<close>

definition deleteRecipe :: "es_backend \<Rightarrow> string \<Rightarrow> error + es_backend" where
  "deleteRecipe es i =
     (case es_delete es i of
        Inl e \<Rightarrow> Inl e
      | Inr es' \<Rightarrow> Inr es')"

text \<open>\<open>formatRecipe\<close>: the mean of the rating values (\<open>null\<close> without ratings) and the
  two counts.\<close>

definition formatRecipe :: "recipe_included \<Rightarrow> formatted_recipe" where
  "formatRecipe r =
     \<lparr> included = r,
       averageRating =
         (if length (ratings (row r)) > 0
          then Some (real_of_int (sum_list (map rating (ratings (row r))))
                       / real (length (ratings (row r))))
          else None),
       ratingsCount = count_ratings r,
       commentsCount = count_comments r \<rparr>"

text \<open>The \<open>must\<close> clauses of \<open>searchRecipes\<close>, in the order the code pushes them. The
  filter field \<open>minRating\<close> is not read.\<close>

definition mustQueries :: "search_filters \<Rightarrow> es_query list" where
  "mustQueries filters =
     (if truthy_string (f_difficulty filters)
      then [Term ''difficulty'' (VString (the (f_difficulty filters)))] else [])
     @ (if truthy_string (f_cuisine filters)
        then [Term ''cuisine'' (VString (the (f_cuisine filters)))] else [])
     @ (if nonempty_list (f_tags filters)
        then [Terms ''tags'' (the (f_tags filters))] else [])
     @ (if nonempty_list (f_ingredients filters)
        then [Bool []
                (map (\<lambda>ingredient. Term ''ingredients.keyword'' (VString (toLowerCase ingredient)))
                   (the (f_ingredients filters)))
                1]
        else [])
     @ (if truthy_number (f_maxPrepTime filters)
        then [RangeLte ''prepTime'' (the (f_maxPrepTime filters))] else [])
     @ (if truthy_number (f_maxCookTime filters)
        then [RangeLte ''cookTime'' (the (f_maxCookTime filters))] else [])
     @ [Term ''isPublic'' (VBool True)]"

definition shouldQueries :: "string \<Rightarrow> es_query list" where
  "shouldQueries query =
     (if query \<noteq> []
      then [MultiMatch query [(''title'', 3), (''description'', 2), (''ingredients'', 3 / 2)] ''1'']
      else [])"

definition searchBody :: "string \<Rightarrow> search_filters \<Rightarrow> nat \<Rightarrow> nat \<Rightarrow> es_request" where
  "searchBody query filters skip tk =
     \<lparr> req_query = Bool (mustQueries filters) (shouldQueries query) (if query \<noteq> [] then 1 else 0),
       req_from = skip,
       req_size = min tk 50,
       req_terminate_after = 10000 \<rparr>"

text \<open>The \<open>where\<close> object of \<open>searchRecipesInDatabase\<close>. The filter field \<open>minRating\<close>
  is not read.\<close>

definition database_where :: "string \<Rightarrow> search_filters \<Rightarrow> recipe_row \<Rightarrow> bool" where
  "database_where query filters r =
     (isPublic r
      \<and> (if query \<noteq> []
         then contains_insensitive (title r) query
              \<or> (case description r of None \<Rightarrow> False | Some s \<Rightarrow> contains_insensitive s query)
         else True)
      \<and> (if truthy_string (f_difficulty filters)
         then difficulty r = the (f_difficulty filters) else True)
      \<and> (if truthy_string (f_cuisine filters)
         then (case cuisine r of None \<Rightarrow> False
               | Some c \<Rightarrow> contains_insensitive c (the (f_cuisine filters)))
         else True)
      \<and> (if nonempty_list (f_tags filters)
         then (\<exists>t \<in> set (the (f_tags filters)). t \<in> set (tags r)) else True)
      \<and> (if nonempty_list (f_ingredients filters)
         then (\<exists>i \<in> set (ingredients r).
                 in_insensitive (ingredientName i) (the (f_ingredients filters)))
         else True)
      \<and> (if truthy_number (f_maxPrepTime filters)
         then (case prepTime r of None \<Rightarrow> False | Some p \<Rightarrow> p \<le> the (f_maxPrepTime filters))
         else True)
      \<and> (if truthy_number (f_maxCookTime filters)
         then (case cookTime r of None \<Rightarrow> False | Some c \<Rightarrow> c \<le> the (f_maxCookTime filters))
         else True))"

text \<open>\<open>searchRecipesInDatabase\<close>: the page and the count, both under the same \<open>where\<close>;
  \<open>take\<close> is passed to the store as the caller gave it.\<close>

definition searchRecipesInDatabase ::
    "primary_store \<Rightarrow> string \<Rightarrow> search_filters \<Rightarrow> nat \<Rightarrow> nat \<Rightarrow> error + search_result" where
  "searchRecipesInDatabase db query filters skip tk =
     (case findMany db (database_where query filters) skip tk of
        Inl e \<Rightarrow> Inl e
      | Inr rs \<Rightarrow>
          (case count_where db (database_where query filters) of
             Inl e \<Rightarrow> Inl e
           | Inr n \<Rightarrow> Inr \<lparr> recipes = map (\<lambda>r. StoreRow (formatRecipe r)) rs, total = n \<rparr>))"

text \<open>\<open>searchRecipes\<close>: the index path, and in its \<open>catch\<close> the fallback to the store.\<close>

definition searchRecipes ::
    "es_backend \<Rightarrow> primary_store \<Rightarrow> string \<Rightarrow> search_filters \<Rightarrow> nat \<Rightarrow> nat
       \<Rightarrow> error + search_result" where
  "searchRecipes es db query filters skip tk =
     (case es_search es (searchBody query filters skip tk) of
        Inr response \<Rightarrow>
          Inr \<lparr> recipes = map IndexHit (hits response), total = hits_total response \<rparr>
      | Inl e \<Rightarrow> searchRecipesInDatabase db query filters skip tk)"

text \<open>\<open>searchByIngredients\<close>: its request, the \<open>where\<close> of its fallback, and the operation.\<close>

definition ingredientsBody :: "string list \<Rightarrow> nat \<Rightarrow> nat \<Rightarrow> es_request" where
  "ingredientsBody ings skip tk =
     \<lparr> req_query =
         Bool [Term ''isPublic'' (VBool True),
               Bool []
                 (map (\<lambda>ingredient.
                         MultiMatch ingredient [(''ingredients'', 2), (''title'', 3 / 2)] ''AUTO'')
                    ings)
                 1]
              [] 0,
       req_from = skip,
       req_size = min tk 50,
       req_terminate_after = 10000 \<rparr>"

definition ingredients_where :: "string list \<Rightarrow> recipe_row \<Rightarrow> bool" where
  "ingredients_where ings r =
     (isPublic r \<and> (\<exists>i \<in> set (ingredients r). in_insensitive (ingredientName i) ings))"

definition searchByIngredients ::
    "es_backend \<Rightarrow> primary_store \<Rightarrow> string list \<Rightarrow> nat \<Rightarrow> nat \<Rightarrow> error + search_result" where
  "searchByIngredients es db ings skip tk =
     (case es_search es (ingredientsBody ings skip tk) of
        Inr response \<Rightarrow>
          Inr \<lparr> recipes = map IndexHit (hits response), total = hits_total response \<rparr>
      | Inl e \<Rightarrow>
          (case findMany db (ingredients_where ings) skip tk of
             Inl e' \<Rightarrow> Inl e'
           | Inr rs \<Rightarrow>
               (case count_where db (ingredients_where ings) of
                  Inl e' \<Rightarrow> Inl e'
                | Inr n \<Rightarrow> Inr \<lparr> recipes = map (\<lambda>r. StoreRow (formatRecipe r)) rs, total = n \<rparr>)))"

section \<open>Recipes service\<close>

text \<open>
  The state the recipe mutations act on: the primary store and the index. \<open>remove\<close>
  looks the recipe up, rejects a missing recipe and a caller who is not the author, and
  deletes the row from the store; it makes no call to the search service.
\<close>

record app_state =
  store :: primary_store
  index :: es_backend

definition findUnique :: "primary_store \<Rightarrow> string \<Rightarrow> error + recipe_row option" where
  "findUnique db i =
     (case store_fault db of
        Some m \<Rightarrow> Inl (PrismaError m)
      | None \<Rightarrow> Inr (find (\<lambda>r. recipeId r = i) (recipeTable db)))"

definition delete_row :: "primary_store \<Rightarrow> string \<Rightarrow> error + primary_store" where
  "delete_row db i =
     (case store_fault db of
        Some m \<Rightarrow> Inl (PrismaError m)
      | None \<Rightarrow> Inr (db\<lparr> recipeTable := filter (\<lambda>r. recipeId r \<noteq> i) (recipeTable db) \<rparr>))"

definition remove :: "app_state \<Rightarrow> string \<Rightarrow> string \<Rightarrow> error + (bool \<times> app_state)" where
  "remove s i userId =
     (case findUnique (store s) i of
        Inl e \<Rightarrow> Inl e
      | Inr None \<Rightarrow> Inl (NotFoundException ''Recipe not found'')
      | Inr (Some recipe) \<Rightarrow>
          if authorId recipe \<noteq> userId
          then Inl (ForbiddenException ''You can only delete your own recipes'')
          else (case delete_row (store s) i of
                  Inl e \<Rightarrow> Inl e
                | Inr db' \<Rightarrow> Inr (True, s\<lparr> store := db' \<rparr>)))"

section \<open>Trend ranker\<close>

text \<open>
  JavaScript numbers are taken as real numbers; \<open>now\<close> is the clock reading
  (\<open>new Date().getTime()\<close>, milliseconds) of the request.
\<close>

record trend_data =
  trend :: string
  score :: real

record trending_recipe =
  t_title :: string
  t_description :: string
  t_trend :: string
  t_difficulty :: string
  t_prepTime :: int
  t_cookTime :: int

text \<open>\<open>tags.includes(t)\<close>.\<close>

definition includes_tag :: "string list \<Rightarrow> string \<Rightarrow> bool" where
  "includes_tag ts t = (t \<in> set ts)"

definition determineTrendCategory :: "string list \<Rightarrow> real \<Rightarrow> nat \<Rightarrow> real \<Rightarrow> string" where
  "determineTrendCategory ts avgRating engagementScore daysSinceCreated =
     (if includes_tag ts ''air-fryer'' \<or> includes_tag ts ''air-frying'' then ''Air Frying''
      else if includes_tag ts ''sourdough'' \<or> includes_tag ts ''fermentation'' then ''Sourdough Baking''
      else if includes_tag ts ''plant-based'' \<or> includes_tag ts ''vegan'' then ''Plant-Based Cooking''
      else if includes_tag ts ''keto'' \<or> includes_tag ts ''low-carb'' then ''Keto Diet''
      else if includes_tag ts ''instant-pot'' \<or> includes_tag ts ''pressure-cooker''
        then ''Instant Pot Cooking''
      else if includes_tag ts ''meal-prep'' \<or> includes_tag ts ''batch-cooking'' then ''Meal Prep''
      else if includes_tag ts ''one-pot'' \<or> includes_tag ts ''sheet-pan'' then ''One-Pot Meals''
      else if includes_tag ts ''gluten-free'' \<or> includes_tag ts ''dairy-free''
        then ''Allergen-Free Cooking''
      else if includes_tag ts ''fermentation'' \<or> includes_tag ts ''pickling'' then ''Fermentation''
      else if includes_tag ts ''smoking'' \<or> includes_tag ts ''bbq'' then ''Smoking & BBQ''
      else if avgRating \<ge> 4.5 then ''Highly Rated''
      else if engagementScore \<ge> 10 then ''Popular''
      else if daysSinceCreated \<le> 7 then ''New & Trending''
      else ''Recently Added'')"

text \<open>The local constants of \<open>calculateTrendScore\<close>, one definition each.\<close>

definition daysSinceCreated :: "int \<Rightarrow> recipe_included \<Rightarrow> real" where
  "daysSinceCreated now r = real_of_int (now - createdAt (row r)) / (1000 * 60 * 60 * 24)"

definition avgRating :: "recipe_included \<Rightarrow> real" where
  "avgRating r =
     (if length (ratings (row r)) > 0
      then real_of_int (sum_list (map rating (ratings (row r)))) / real (length (ratings (row r)))
      else 0)"

definition engagementScore :: "recipe_included \<Rightarrow> nat" where
  "engagementScore r = count_ratings r + count_comments r"

definition recencyScore :: "int \<Rightarrow> recipe_included \<Rightarrow> real" where
  "recencyScore now r = max 0 (30 - daysSinceCreated now r) / 30"

definition ratingScore :: "recipe_included \<Rightarrow> real" where
  "ratingScore r = avgRating r / 5"

definition calculateTrendScore :: "int \<Rightarrow> recipe_included \<Rightarrow> trend_data" where
  "calculateTrendScore now r =
     \<lparr> trend = determineTrendCategory (tags (row r)) (avgRating r) (engagementScore r)
                 (daysSinceCreated now r),
       score = (recencyScore now r * 0.4) + (ratingScore r * 0.3)
               + (real (engagementScore r) * 0.3) \<rparr>"

text \<open>
  The query of \<open>getTrendingRecipes\<close>: \<open>findMany({ take, orderBy: { createdAt: 'desc' },
  include: { ratings, comments, _count } })\<close>. It has no \<open>where\<close>.
\<close>

definition include_counts :: "recipe_row \<Rightarrow> recipe_included" where
  "include_counts r =
     \<lparr> row = r, count_ratings = length (ratings r), count_comments = length (comments r) \<rparr>"

definition findMany_recent :: "primary_store \<Rightarrow> nat \<Rightarrow> error + recipe_included list" where
  "findMany_recent db tk =
     (case store_fault db of
        Some m \<Rightarrow> Inl (PrismaError m)
      | None \<Rightarrow> Inr (map include_counts (take tk (orderBy_createdAt_desc (recipeTable db)))))"

text \<open>The element built for each candidate, with its \<open>trendScore\<close>.\<close>

definition scored_recipe :: "int \<Rightarrow> recipe_included \<Rightarrow> trending_recipe \<times> real" where
  "scored_recipe now r =
     (let trendData = calculateTrendScore now r in
      (\<lparr> t_title = title (row r),
         t_description = (case description (row r) of None \<Rightarrow> [] | Some s \<Rightarrow> s),
         t_trend = trend trendData,
         t_difficulty = toUpperCase (difficulty (row r)),
         t_prepTime = (case prepTime (row r) of None \<Rightarrow> 0 | Some p \<Rightarrow> p),
         t_cookTime = (case cookTime (row r) of None \<Rightarrow> 0 | Some c \<Rightarrow> c) \<rparr>,
       score trendData))"

text \<open>
  \<open>getTrendingRecipes\<close>: the two input checks raise; an error of the store is caught and
  answered by the empty list; the candidates are sorted by score descending (the sort is
  stable) and the first \<open>limit\<close> are returned.
\<close>

definition getTrendingRecipes :: "int \<Rightarrow> primary_store \<Rightarrow> int \<Rightarrow> error + trending_recipe list" where
  "getTrendingRecipes now db limit =
     (if limit = 0 then Inl (HttpException ''limit is required and cannot be empty'' 400)
      else if limit \<le> 0 \<or> limit > 50 then Inl (HttpException ''Limit must be between 1 and 50'' 400)
      else
        (case findMany_recent db (nat (min (limit * 3) 100)) of
           Inl e \<Rightarrow> Inr []
         | Inr rs \<Rightarrow>
             if length rs = 0 then Inr []
             else Inr (map fst
                         (take (nat limit)
                            (sort_key (\<lambda>p. - snd p) (map (scored_recipe now) rs))))))"

section \<open>The documented label rules\<close>

text \<open>
  The priority order of the trend labels as the specification documents it: ten tag
  rules, each with the tags that trigger it, then the rating, the engagement and the
  recency rule, and "Recently Added" when nothing applies. \<open>documented_label\<close> is the label
  of the first rule that applies in this order.
\<close>

definition documented_tag_rules :: "(string list \<times> string) list" where
  "documented_tag_rules =
     [([''air-fryer''], ''Air Frying''),
      ([''sourdough'', ''fermentation''], ''Sourdough Baking''),
      ([''plant-based'', ''vegan''], ''Plant-Based Cooking''),
      ([''keto'', ''low-carb''], ''Keto Diet''),
      ([''instant-pot'', ''pressure-cooker''], ''Instant Pot Cooking''),
      ([''meal-prep'', ''batch-cooking''], ''Meal Prep''),
      ([''one-pot'', ''sheet-pan''], ''One-Pot Meals''),
      ([''gluten-free'', ''dairy-free''], ''Allergen-Free Cooking''),
      ([''fermentation'', ''pickling''], ''Fermentation''),
      ([''smoking'', ''bbq''], ''Smoking & BBQ'')]"

definition rule_applies :: "string list \<Rightarrow> string list \<times> string \<Rightarrow> bool" where
  "rule_applies ts rule = list_ex (\<lambda>t. t \<in> set ts) (fst rule)"

definition documented_label :: "string list \<Rightarrow> real \<Rightarrow> nat \<Rightarrow> real \<Rightarrow> string" where
  "documented_label ts a e d =
     (case find (rule_applies ts) documented_tag_rules of
        Some rule \<Rightarrow> snd rule
      | None \<Rightarrow>
          if a \<ge> 4.5 then ''Highly Rated''
          else if e \<ge> 10 then ''Popular''
          else if d \<le> 7 then ''New & Trending''
          else ''Recently Added'')"

section \<open>The fallback query in words\<close>



section \<open>Sample data\<close>

definition no_filters :: search_filters where
  "no_filters = \<lparr> f_difficulty = None, f_cuisine = None, f_tags = None, f_ingredients = None,
                  f_minRating = None, f_maxPrepTime = None, f_maxCookTime = None \<rparr>"

definition carbonara :: recipe_row where
  "carbonara =
     \<lparr> recipeId = ''r1'', title = ''Spaghetti Carbonara'', description = Some ''Roman classic'',
       prepTime = Some 10, cookTime = Some 20, servings = Some 2, difficulty = ''EASY'',
       cuisine = Some ''Italian'', tags = [''pasta''], authorId = ''u1'', isPublic = True,
       createdAt = 1000, updatedAt = 1000,
       ingredients = [\<lparr> ingredientName = ''pasta'', ingredientOrder = 1 \<rparr>,
                      \<lparr> ingredientName = ''eggs'', ingredientOrder = 2 \<rparr>,
                      \<lparr> ingredientName = ''pancetta'', ingredientOrder = 3 \<rparr>],
       instructions = [\<lparr> step = ''Boil the pasta'', stepOrder = 1 \<rparr>],
       ratings = [\<lparr> ratingUserId = ''u2'', rating = 5 \<rparr>],
       comments = [] \<rparr>"

text \<open>A recipe that is not public.\<close>

definition secret_stew :: recipe_row where
  "secret_stew =
     \<lparr> recipeId = ''r2'', title = ''Secret Stew'', description = None,
       prepTime = None, cookTime = Some 90, servings = None, difficulty = ''hard'',
       cuisine = None, tags = [], authorId = ''u2'', isPublic = False,
       createdAt = 2000, updatedAt = 2000,
       ingredients = [\<lparr> ingredientName = ''Eggs'', ingredientOrder = 1 \<rparr>],
       instructions = [],
       ratings = [],
       comments = [] \<rparr>"

definition sample_store :: primary_store where
  "sample_store = \<lparr> recipeTable = [carbonara, secret_stew], store_fault = None \<rparr>"

text \<open>A backend whose full-text match is the case-insensitive occurrence of the query in
  the title, and which scores every document alike.\<close>

definition empty_index :: es_backend where
  "empty_index =
     \<lparr> es_fault = None, es_docs = [],
       text_match = (\<lambda>q flds fuzziness d. contains_insensitive (title d) q),
       relevance = (\<lambda>q d. 0) \<rparr>"

definition carbonara_index :: es_backend where
  "carbonara_index = empty_index\<lparr> es_docs := [document_of carbonara] \<rparr>"

definition sample_index :: es_backend where
  "sample_index = empty_index\<lparr> es_docs := [document_of carbonara, document_of secret_stew] \<rparr>"

definition unreachable_index :: es_backend where
  "unreachable_index = sample_index\<lparr> es_fault := Some (ConnectionError ''connect ECONNREFUSED'') \<rparr>"

text \<open>Fifty-one public recipes with distinct ids.\<close>

definition numbered_recipe :: "nat \<Rightarrow> recipe_row" where
  "numbered_recipe n = carbonara\<lparr> recipeId := replicate (Suc n) CHR ''x'', createdAt := int n \<rparr>"

definition crowded_store :: primary_store where
  "crowded_store = \<lparr> recipeTable = map numbered_recipe [0..<51], store_fault = None \<rparr>"

text \<open>The same recipe created earlier.\<close>

definition older_carbonara :: recipe_row where
  "older_carbonara = carbonara\<lparr> recipeId := ''r0'', createdAt := 0 \<rparr>"

text \<open>A public recipe that mentions carbonara and fails the filters below, filters that
  each ask something, a store with the three recipes, and the same store unreachable.\<close>

definition tiramisu :: recipe_row where
  "tiramisu =
     \<lparr> recipeId = ''r3'', title = ''Tiramisu alla carbonara'', description = Some ''Dessert'',
       prepTime = Some 30, cookTime = None, servings = Some 6, difficulty = ''MEDIUM'',
       cuisine = Some ''Italian'', tags = [''dessert''], authorId = ''u1'', isPublic = True,
       createdAt = 3000, updatedAt = 3000,
       ingredients = [\<lparr> ingredientName = ''Eggs'', ingredientOrder = 1 \<rparr>,
                      \<lparr> ingredientName = ''mascarpone'', ingredientOrder = 2 \<rparr>],
       instructions = [],
       ratings = [],
       comments = [] \<rparr>"

definition strict_filters :: search_filters where
  "strict_filters =
     \<lparr> f_difficulty = Some ''EASY'', f_cuisine = Some ''ital'', f_tags = Some [''pasta''],
       f_ingredients = Some [''EGGS''], f_minRating = None, f_maxPrepTime = Some 15,
       f_maxCookTime = Some 30 \<rparr>"

definition filter_store :: primary_store where
  "filter_store = \<lparr> recipeTable = [carbonara, secret_stew, tiramisu], store_fault = None \<rparr>"

definition down_store :: primary_store where
  "down_store = filter_store\<lparr> store_fault := Some ''connection refused'' \<rparr>"

section \<open>Facts about the index backend and the store\<close>

lemmas sample_defs = no_filters_def carbonara_def secret_stew_def sample_store_def empty_index_def
  carbonara_index_def sample_index_def unreachable_index_def tiramisu_def strict_filters_def
  filter_store_def down_store_def

lemmas search_defs = searchRecipes_def searchByIngredients_def searchRecipesInDatabase_def
  searchBody_def ingredientsBody_def mustQueries_def shouldQueries_def database_where_def
  ingredients_where_def es_search_def findMany_def count_where_def max_result_window_def
  keyword_values_def integer_value_def source_of_def document_of_def formatRecipe_def
  include_relations_def orderBy_createdAt_desc_def contains_insensitive_def in_insensitive_def
  toLowerCase_def toLowerCase_char_def

lemma isPublic_in_mustQueries: "Term ''isPublic'' (VBool True) \<in> set (mustQueries filters)"
  by (simp add: mustQueries_def)

lemma es_search_hits_match:
  assumes "es_search es req = Inr response"
  shows "\<forall>h \<in> set (hits response). \<exists>d \<in> set (es_docs es). h = source_of d \<and> matches es (req_query req) d"
proof -
  let ?collected = "take (req_terminate_after req) (filter (matches es (req_query req)) (es_docs es))"
  let ?ranked = "sort_key (\<lambda>d. - relevance es (req_query req) d) ?collected"
  from assms have h: "hits response = map source_of (take (req_size req) (drop (req_from req) ?ranked))"
    by (auto simp: es_search_def Let_def split: option.splits if_splits)
  have "set (take (req_size req) (drop (req_from req) ?ranked)) \<subseteq> set ?ranked"
    by (meson set_take_subset set_drop_subset subset_trans)
  also have "\<dots> = set ?collected" by simp
  also have "\<dots> \<subseteq> set (filter (matches es (req_query req)) (es_docs es))"
    by (rule set_take_subset)
  finally show ?thesis unfolding h by auto
qed

lemma es_search_hits_public:
  assumes "es_search es req = Inr response"
    and "req_query req = Bool must should msm"
    and "Term ''isPublic'' (VBool True) \<in> set must"
  shows "\<forall>h \<in> set (hits response). isPublic h"
proof
  fix h assume "h \<in> set (hits response)"
  with es_search_hits_match[OF assms(1)] obtain d
    where d: "h = source_of d" "matches es (req_query req) d" by blast
  from d(2) assms(2,3) have "matches es (Term ''isPublic'' (VBool True)) d" by auto
  then have "isPublic d" by (simp add: keyword_values_def)
  with d(1) show "isPublic h" by (simp add: source_of_def)
qed

lemma findMany_rows:
  assumes "findMany db wh skip tk = Inr rs"
  shows "\<forall>r \<in> set rs. \<exists>x \<in> set (recipeTable db). r = include_relations x \<and> wh x"
proof -
  let ?sorted = "orderBy_createdAt_desc (filter wh (recipeTable db))"
  from assms have rs: "rs = map include_relations (take tk (drop skip ?sorted))"
    by (auto simp: findMany_def split: option.splits)
  have "set (take tk (drop skip ?sorted)) \<subseteq> set ?sorted"
    by (meson set_take_subset set_drop_subset subset_trans)
  also have "\<dots> = set (filter wh (recipeTable db))"
    by (simp add: orderBy_createdAt_desc_def)
  finally show ?thesis unfolding rs by auto
qed

lemma isPublic_include_relations: "isPublic (row (include_relations r)) = isPublic r"
  by (simp add: include_relations_def)

lemma database_rows_public:
  assumes "findMany db wh skip tk = Inr rs" and "\<And>x. wh x \<Longrightarrow> isPublic x"
  shows "\<forall>it \<in> set (map (\<lambda>r. StoreRow (formatRecipe r)) rs). item_isPublic it"
  using findMany_rows[OF assms(1)] assms(2)
  by (auto simp: formatRecipe_def isPublic_include_relations)

lemma database_search_public:
  assumes "searchRecipesInDatabase db q filters skip tk = Inr res"
  shows "\<forall>it \<in> set (recipes res). item_isPublic it"
proof -
  from assms obtain rs n where rs: "findMany db (database_where q filters) skip tk = Inr rs"
    and res: "res = \<lparr> recipes = map (\<lambda>r. StoreRow (formatRecipe r)) rs, total = n \<rparr>"
    by (auto simp: searchRecipesInDatabase_def split: sum.splits)
  have "\<And>x. database_where q filters x \<Longrightarrow> isPublic x" by (simp add: database_where_def)
  from database_rows_public[OF rs this] show ?thesis by (simp add: res)
qed


lemma searchRecipes_fallback:
  assumes "es_search es (searchBody q filters skip tk) = Inl e" and "store_fault db = None"
  shows "searchRecipes es db q filters skip tk =
     Inr \<lparr> recipes = map (\<lambda>r. StoreRow (formatRecipe (include_relations r)))
                       (take tk (drop skip (orderBy_createdAt_desc
                          (filter (database_where q filters) (recipeTable db))))),
           total = length (filter (database_where q filters) (recipeTable db)) \<rparr>"
  using assms
  by (simp add: searchRecipes_def searchRecipesInDatabase_def findMany_def count_where_def)

lemma numbered_recipe_matches: "database_where [] no_filters (numbered_recipe n)"
  by (simp add: database_where_def no_filters_def numbered_recipe_def carbonara_def)



section \<open>Properties of the query engine\<close>




text \<open>
  Claim C2. Every item that \<open>searchRecipes\<close> or \<open>searchByIngredients\<close> returns, on the index
  path and on the fallback path, is public, whatever filters the caller supplies.
\<close>

theorem search_items_public:
  "(searchRecipes es db q filters skip tk = Inr res \<longrightarrow> (\<forall>it \<in> set (recipes res). item_isPublic it))
   \<and> (searchByIngredients es db ings skip tk = Inr res' \<longrightarrow> (\<forall>it \<in> set (recipes res'). item_isPublic it))"
proof (intro conjI impI)
  assume a: "searchRecipes es db q filters skip tk = Inr res"
  show "\<forall>it \<in> set (recipes res). item_isPublic it"
  proof (cases "es_search es (searchBody q filters skip tk)")
    case (Inl e)
    with a have "searchRecipesInDatabase db q filters skip tk = Inr res"
      by (simp add: searchRecipes_def)
    then show ?thesis by (rule database_search_public)
  next
    case (Inr response)
    have "\<forall>h \<in> set (hits response). isPublic h"
      by (rule es_search_hits_public[OF Inr, of "mustQueries filters"])
         (simp_all add: searchBody_def isPublic_in_mustQueries)
    moreover from a Inr have "recipes res = map IndexHit (hits response)"
      by (auto simp: searchRecipes_def)
    ultimately show ?thesis by auto
  qed
next
  assume a: "searchByIngredients es db ings skip tk = Inr res'"
  show "\<forall>it \<in> set (recipes res'). item_isPublic it"
  proof (cases "es_search es (ingredientsBody ings skip tk)")
    case (Inl e)
    with a obtain rs n where rs: "findMany db (ingredients_where ings) skip tk = Inr rs"
      and res: "res' = \<lparr> recipes = map (\<lambda>r. StoreRow (formatRecipe r)) rs, total = n \<rparr>"
      by (auto simp: searchByIngredients_def split: sum.splits)
    have "\<And>x. ingredients_where ings x \<Longrightarrow> isPublic x" by (simp add: ingredients_where_def)
    from database_rows_public[OF rs this] show ?thesis by (simp add: res)
  next
    case (Inr response)
    have "\<forall>h \<in> set (hits response). isPublic h"
      by (rule es_search_hits_public[OF Inr]) (simp add: ingredientsBody_def, simp)
    moreover from a Inr have "recipes res' = map IndexHit (hits response)"
      by (auto simp: searchByIngredients_def)
    ultimately show ?thesis by auto
  qed
qed

theorem search_items_public_witness:
  "searchRecipes sample_index sample_store ''carbonara'' no_filters 0 10
     = Inr \<lparr> recipes = [IndexHit (source_of (document_of carbonara))], total = 1 \<rparr>
   \<and> item_isPublic (IndexHit (source_of (document_of carbonara)))
   \<and> searchByIngredients unreachable_index sample_store [''EGGS''] 0 10
     = Inr \<lparr> recipes = [StoreRow (formatRecipe (include_relations carbonara))], total = 1 \<rparr>
   \<and> item_isPublic (StoreRow (formatRecipe (include_relations carbonara)))"
proof -
  have e1: "searchRecipes sample_index sample_store ''carbonara'' no_filters 0 10
     = Inr \<lparr> recipes = [IndexHit (source_of (document_of carbonara))], total = 1 \<rparr>"
    by (simp add: sample_defs search_defs)
  have e2: "searchByIngredients unreachable_index sample_store [''EGGS''] 0 10
     = Inr \<lparr> recipes = [StoreRow (formatRecipe (include_relations carbonara))], total = 1 \<rparr>"
    by (simp add: sample_defs search_defs)
  note t = search_items_public[where es = sample_index and db = sample_store
      and q = "''carbonara''" and filters = no_filters and skip = 0 and tk = 10
      and res = "\<lparr> recipes = [IndexHit (source_of (document_of carbonara))], total = 1 \<rparr>"]
  note t' = search_items_public[where es = unreachable_index and db = sample_store
      and ings = "[''EGGS'']" and skip = 0 and tk = 10
      and res' = "\<lparr> recipes = [StoreRow (formatRecipe (include_relations carbonara))], total = 1 \<rparr>"]
  from t e1 have p1: "item_isPublic (IndexHit (source_of (document_of carbonara)))"
    by simp
  from t' e2 have p2: "item_isPublic (StoreRow (formatRecipe (include_relations carbonara)))"
    by simp
  show ?thesis using e1 e2 p1 p2 by blast
qed

text \<open>
  Claim C3. The index path asks the backend for \<open>min(take, 50)\<close> hits, but the fallback
  path hands the caller's \<open>take\<close> to the store as it is. With the index backend
  unreachable, a store of 51 public recipes, an empty query text, no filters, \<open>skip = 0\<close>
  and \<open>take = 1000\<close>, \<open>searchRecipes\<close> returns 51 items (and a total of 51): more than 50.
\<close>

theorem fallback_page_not_clamped:
  "map_sum id (\<lambda>res. (length (recipes res), total res))
     (searchRecipes unreachable_index crowded_store [] no_filters 0 1000) = Inr (51, 51)"
proof -
  have f: "es_search unreachable_index (searchBody [] no_filters 0 1000)
            = Inl (ConnectionError ''connect ECONNREFUSED'')"
    by (simp add: es_search_def unreachable_index_def)
  have s: "store_fault crowded_store = None" by (simp add: crowded_store_def)
  have "\<forall>x \<in> set (recipeTable crowded_store). database_where [] no_filters x"
    unfolding crowded_store_def using numbered_recipe_matches by auto
  then have m: "filter (database_where [] no_filters) (recipeTable crowded_store)
                  = recipeTable crowded_store"
    by (simp only: filter_id_conv)
  have l: "length (recipeTable crowded_store) = 51" unfolding crowded_store_def by simp
  show ?thesis
    unfolding searchRecipes_fallback[OF f s] m
    by (simp add: orderBy_createdAt_desc_def l)
qed

text \<open>
  Claim C5. \<open>remove\<close> deletes the recipe from the primary store and leaves the index as it
  is. After \<open>indexRecipe\<close> has written the document of a public recipe, and its author has
  removed the recipe, a search for the recipe's title on the index path still returns the
  document, although the store no longer holds the recipe.
\<close>

theorem recipe_removal_leaves_index_document:
  "indexRecipe empty_index carbonara = Inr carbonara_index
   \<and> remove \<lparr> store = \<lparr> recipeTable = [carbonara], store_fault = None \<rparr>, index = carbonara_index \<rparr>
        ''r1'' ''u1''
      = Inr (True, \<lparr> store = \<lparr> recipeTable = [], store_fault = None \<rparr>, index = carbonara_index \<rparr>)
   \<and> searchRecipes carbonara_index \<lparr> recipeTable = [], store_fault = None \<rparr>
        ''Spaghetti Carbonara'' no_filters 0 10
      = Inr \<lparr> recipes = [IndexHit (source_of (document_of carbonara))], total = 1 \<rparr>"
proof (intro conjI)
  show "indexRecipe empty_index carbonara = Inr carbonara_index"
    by (simp add: indexRecipe_def es_index_def empty_index_def carbonara_index_def)
  show "remove \<lparr> store = \<lparr> recipeTable = [carbonara], store_fault = None \<rparr>, index = carbonara_index \<rparr>
        ''r1'' ''u1''
      = Inr (True, \<lparr> store = \<lparr> recipeTable = [], store_fault = None \<rparr>, index = carbonara_index \<rparr>)"
    by (simp add: remove_def findUnique_def delete_row_def carbonara_def)
  show "searchRecipes carbonara_index \<lparr> recipeTable = [], store_fault = None \<rparr>
        ''Spaghetti Carbonara'' no_filters 0 10
      = Inr \<lparr> recipes = [IndexHit (source_of (document_of carbonara))], total = 1 \<rparr>"
    by (simp add: sample_defs search_defs)
qed

text \<open>
  Claim C10. Two filter objects that differ only in \<open>minRating\<close> give the same result of
  \<open>searchRecipes\<close>, on the index path and on the fallback path: the field is never read.
\<close>

theorem minRating_not_applied: "searchRecipes es db q (filters\<lparr>f_minRating := m1\<rparr>) skip tk
          = searchRecipes es db q (filters\<lparr>f_minRating := m2\<rparr>) skip tk"
proof -
  have m: "\<And>m. mustQueries (filters\<lparr>f_minRating := m\<rparr>) = mustQueries filters"
    by (simp add: mustQueries_def)
  have w: "\<And>m. database_where q (filters\<lparr>f_minRating := m\<rparr>) = database_where q filters"
    by (rule ext) (simp add: database_where_def cong: option.case_cong)
  have b: "\<And>m. searchBody q (filters\<lparr>f_minRating := m\<rparr>) skip tk = searchBody q filters skip tk"
    by (simp add: searchBody_def m)
  have d: "\<And>m. searchRecipesInDatabase db q (filters\<lparr>f_minRating := m\<rparr>) skip tk
                = searchRecipesInDatabase db q filters skip tk"
    unfolding searchRecipesInDatabase_def w ..
  show ?thesis
    unfolding searchRecipes_def b d ..
qed

section \<open>Properties of the index maintainer\<close>

text \<open>
  Claim C8, as the code has it. \<open>deleteRecipe\<close> raises again every error of the backend's
  delete call: the error \<open>e\<close> that the call raises is the error the caller receives. On a
  reachable backend, an id without a document is answered by the not-found error (status
  404), and an id with a document succeeds, leaving the backend without the documents of
  that id and with all others.
\<close>

theorem deleteRecipe_reraises:
  "(es_delete es i = Inl e \<longrightarrow> deleteRecipe es i = Inl e)
   \<and> (es_fault es = None \<and> i \<notin> set (map recipeId (es_docs es)) \<longrightarrow>
        deleteRecipe es i = Inl (ResponseError 404 ''not_found''))
   \<and> (es_fault es = None \<and> i \<in> set (map recipeId (es_docs es)) \<longrightarrow>
        deleteRecipe es i = Inr (es\<lparr> es_docs := filter (\<lambda>d. recipeId d \<noteq> i) (es_docs es) \<rparr>))"
  by (simp add: deleteRecipe_def es_delete_def)

theorem deleteRecipe_reraises_witness:
  "es_delete unreachable_index ''r1'' = Inl (ConnectionError ''connect ECONNREFUSED'')
   \<and> deleteRecipe unreachable_index ''r1'' = Inl (ConnectionError ''connect ECONNREFUSED'')
   \<and> es_fault empty_index = None \<and> ''ghost'' \<notin> set (map recipeId (es_docs empty_index))
   \<and> deleteRecipe empty_index ''ghost'' = Inl (ResponseError 404 ''not_found'')
   \<and> es_fault carbonara_index = None \<and> ''r1'' \<in> set (map recipeId (es_docs carbonara_index))
   \<and> deleteRecipe carbonara_index ''r1'' = Inr empty_index"
proof -
  have h1: "es_delete unreachable_index ''r1'' = Inl (ConnectionError ''connect ECONNREFUSED'')"
    by (simp add: es_delete_def unreachable_index_def)
  have h2: "es_fault empty_index = None \<and> ''ghost'' \<notin> set (map recipeId (es_docs empty_index))"
    by (simp add: empty_index_def)
  have h3: "es_fault carbonara_index = None \<and> ''r1'' \<in> set (map recipeId (es_docs carbonara_index))"
    by (simp add: carbonara_index_def empty_index_def document_of_def carbonara_def)
  have d: "carbonara_index\<lparr> es_docs := filter (\<lambda>d. recipeId d \<noteq> ''r1'') (es_docs carbonara_index) \<rparr>
            = empty_index"
    by (simp add: carbonara_index_def empty_index_def document_of_def carbonara_def)
  from deleteRecipe_reraises[where es = unreachable_index and i = "''r1''"
      and e = "ConnectionError ''connect ECONNREFUSED''"] h1
  have c1: "deleteRecipe unreachable_index ''r1'' = Inl (ConnectionError ''connect ECONNREFUSED'')"
    by blast
  from deleteRecipe_reraises[where es = empty_index and i = "''ghost''"] h2
  have c2: "deleteRecipe empty_index ''ghost'' = Inl (ResponseError 404 ''not_found'')"
    by blast
  from deleteRecipe_reraises[where es = carbonara_index and i = "''r1''"] h3
  have c3: "deleteRecipe carbonara_index ''r1'' = Inr empty_index"
    unfolding d by blast
  show ?thesis using h1 h2 h3 c1 c2 c3 by blast
qed

text \<open>
  The claim that \<open>deleteRecipe\<close> succeeds for every id fails on the code: for an id without
  a document on a reachable backend the caller receives the not-found error, and on an
  unreachable backend the caller receives the connection error.
\<close>

theorem deleteRecipe_raises_counterexample:
  "deleteRecipe empty_index ''ghost'' = Inl (ResponseError 404 ''not_found'')
   \<and> deleteRecipe unreachable_index ''r1'' = Inl (ConnectionError ''connect ECONNREFUSED'')"
  by (simp add: sample_defs deleteRecipe_def es_delete_def)

section \<open>Properties of the trend ranker\<close>


text \<open>
  Claim C6. The query of \<open>getTrendingRecipes\<close> takes the \<open>min(limit * 3, 100)\<close> most recently
  created recipes without a \<open>where\<close> clause, so recipes that are not public are candidates
  too. With a store that holds one recipe, which is not public, and \<open>limit = 1\<close>, the
  result lists that recipe.
\<close>

theorem trending_lists_private_recipe:
  "isPublic secret_stew = False
   \<and> getTrendingRecipes 86402000 \<lparr> recipeTable = [secret_stew], store_fault = None \<rparr> 1
      = Inr [\<lparr> t_title = ''Secret Stew'', t_description = [], t_trend = ''New & Trending'',
               t_difficulty = ''HARD'', t_prepTime = 0, t_cookTime = 90 \<rparr>]"
  by (simp add: sample_defs getTrendingRecipes_def findMany_recent_def include_counts_def
      orderBy_createdAt_desc_def scored_recipe_def calculateTrendScore_def
      determineTrendCategory_def includes_tag_def avgRating_def engagementScore_def
      daysSinceCreated_def toUpperCase_def toUpperCase_char_def Let_def)

text \<open>
  Claim C7, as the code has it. For a recipe without the tag \<open>air-frying\<close>, the trend label
  is the label of the first rule that applies in the documented priority order, where
  every tag rule comes before the rating, engagement and recency rules; a recipe with the
  tag \<open>air-frying\<close> is labelled "Air Frying", the first rule, which the code triggers by this
  tag as well as by \<open>air-fryer\<close>. Exactly one label results. A recipe tagged
  \<open>["vegan", "keto"]\<close> with an average rating of 5 is labelled "Plant-Based Cooking".
\<close>

theorem trend_label_first_match:
  "(''air-frying'' \<notin> set ts \<longrightarrow> determineTrendCategory ts a e d = documented_label ts a e d)
   \<and> (''air-frying'' \<in> set ts \<longrightarrow> determineTrendCategory ts a e d = ''Air Frying'')
   \<and> determineTrendCategory [''vegan'', ''keto''] 5 e d = ''Plant-Based Cooking''"
  by (simp add: determineTrendCategory_def documented_label_def documented_tag_rules_def
        rule_applies_def includes_tag_def)

theorem trend_label_first_match_witness:
  "''air-frying'' \<notin> set [''vegan'', ''keto'']
   \<and> determineTrendCategory [''vegan'', ''keto''] 5 12 3 = documented_label [''vegan'', ''keto''] 5 12 3
   \<and> documented_label [''vegan'', ''keto''] 5 12 3 = ''Plant-Based Cooking''
   \<and> ''air-frying'' \<in> set [''air-frying'', ''vegan'']
   \<and> determineTrendCategory [''air-frying'', ''vegan''] 5 12 3 = ''Air Frying''"
proof -
  have h1: "''air-frying'' \<notin> set [''vegan'', ''keto'']" by simp
  have h2: "''air-frying'' \<in> set [''air-frying'', ''vegan'']" by simp
  have d: "documented_label [''vegan'', ''keto''] 5 12 3 = ''Plant-Based Cooking''"
    by (simp add: documented_label_def documented_tag_rules_def rule_applies_def)
  from trend_label_first_match[where ts = "[''vegan'', ''keto'']" and a = 5 and e = 12 and d = 3] h1
  have c1: "determineTrendCategory [''vegan'', ''keto''] 5 12 3 = documented_label [''vegan'', ''keto''] 5 12 3"
    by blast
  from trend_label_first_match[where ts = "[''air-frying'', ''vegan'']" and a = 5 and e = 12 and d = 3] h2
  have c2: "determineTrendCategory [''air-frying'', ''vegan''] 5 12 3 = ''Air Frying''"
    by blast
  show ?thesis using h1 h2 d c1 c2 by blast
qed

text \<open>
  The documented order has \<open>air-fryer\<close> alone for its first rule: for a recipe tagged
  \<open>["air-frying"]\<close> with an average rating of 5 the documented rules give "Highly Rated",
  and the code gives "Air Frying".
\<close>

theorem trend_label_documented_counterexample: "determineTrendCategory [''air-frying''] 5 0 0 = ''Air Frying''
   \<and> documented_label [''air-frying''] 5 0 0 = ''Highly Rated''"
  by (simp add: determineTrendCategory_def documented_label_def documented_tag_rules_def
        rule_applies_def includes_tag_def)

text \<open>
  Claim C9. Of two candidates with the same ratings and the same relation counts, the one
  created later has a recency score, and a trend score, at least as high as the other's.
\<close>

theorem trend_monotone_in_recency:
  assumes "createdAt (row b) \<le> createdAt (row a)" "ratings (row a) = ratings (row b)"
    "count_ratings a = count_ratings b" "count_comments a = count_comments b"
  shows "recencyScore now b \<le> recencyScore now a
     \<and> score (calculateTrendScore now b) \<le> score (calculateTrendScore now a)"
proof -
  have d: "daysSinceCreated now a \<le> daysSinceCreated now b"
    using assms(1) by (simp add: daysSinceCreated_def divide_right_mono)
  then have r: "recencyScore now b \<le> recencyScore now a"
    by (simp add: recencyScore_def divide_right_mono max.coboundedI2)
  have "ratingScore a = ratingScore b" "engagementScore a = engagementScore b"
    using assms by (simp_all add: ratingScore_def avgRating_def engagementScore_def)
  with r show ?thesis by (simp add: calculateTrendScore_def)
qed

theorem trend_monotone_in_recency_witness:
  "createdAt (row (include_counts older_carbonara)) \<le> createdAt (row (include_counts carbonara))
   \<and> ratings (row (include_counts carbonara)) = ratings (row (include_counts older_carbonara))
   \<and> count_ratings (include_counts carbonara) = count_ratings (include_counts older_carbonara)
   \<and> count_comments (include_counts carbonara) = count_comments (include_counts older_carbonara)
   \<and> recencyScore 86400000 (include_counts older_carbonara)
        \<le> recencyScore 86400000 (include_counts carbonara)
   \<and> score (calculateTrendScore 86400000 (include_counts older_carbonara))
        \<le> score (calculateTrendScore 86400000 (include_counts carbonara))"
proof -
  have h1: "createdAt (row (include_counts older_carbonara)) \<le> createdAt (row (include_counts carbonara))"
    by (simp add: include_counts_def older_carbonara_def carbonara_def)
  have h2: "ratings (row (include_counts carbonara)) = ratings (row (include_counts older_carbonara))"
    by (simp add: include_counts_def older_carbonara_def)
  have h3: "count_ratings (include_counts carbonara) = count_ratings (include_counts older_carbonara)"
    by (simp add: include_counts_def older_carbonara_def)
  have h4: "count_comments (include_counts carbonara) = count_comments (include_counts older_carbonara)"
    by (simp add: include_counts_def older_carbonara_def)
  from trend_monotone_in_recency[OF h1 h2 h3 h4, of 86400000] h1 h2 h3 h4
  show ?thesis by blast
qed

end
